theory Spec2Isabelle
  imports Main "HOL-Library.Finite_Map"
begin

section \<open>Entity schema (backend/main.py, lines 41-67)\<close>

text \<open>
  A calendar date (\<^verbatim>\<open>datetime.date\<close>): year, month, day. The handlers only store and
  return dates, they never compute with them.
\<close>

datatype date = Date int int int

text \<open>
  \<^verbatim>\<open>class TodoItem(SQLModel, table=True)\<close> plays two roles in the source: it is the Python
  object the handlers hold, and it declares the table \<^verbatim>\<open>todoitem\<close>.

  The object: a table model does not validate attribute assignment, so after
  \<^verbatim>\<open>sqlmodel_update\<close> the attributes \<^verbatim>\<open>title\<close> and \<^verbatim>\<open>completed\<close> can hold \<^verbatim>\<open>None\<close> in memory
  although they are annotated \<^verbatim>\<open>str\<close> and \<^verbatim>\<open>bool\<close>. Every attribute is therefore an option.
  The field \<^verbatim>\<open>id\<close> is written \<open>id'\<close> (\<open>id\<close> is the identity function of HOL).
\<close>

record TodoItem =
  id' :: "int option"
  title :: "string option"
  description :: "string option"
  completed :: "bool option"
  priority :: "string option"
  due_date :: "date option"

text \<open>
  The table: \<^verbatim>\<open>id INTEGER NOT NULL PRIMARY KEY\<close> is the key of the finite map; the other
  columns form the row. \<^verbatim>\<open>title\<close> and \<^verbatim>\<open>completed\<close> are declared without \<^verbatim>\<open>Optional\<close>, which
  SQLModel turns into \<^verbatim>\<open>NOT NULL\<close> columns: their values are not options. The column
  \<^verbatim>\<open>priority VARCHAR(50)\<close> carries no check in SQLite: the declared length is not enforced
  by the store.
\<close>

record todoitem_row =
  row_title :: string
  row_description :: "string option"
  row_completed :: bool
  row_priority :: "string option"
  row_due_date :: "date option"

type_synonym todoitem_table = "(int, todoitem_row) fmap"

text \<open>\<^verbatim>\<open>class TodoItemCreate(BaseModel)\<close>, after validation of the request body.\<close>

record TodoItemCreate =
  create_title :: string
  create_description :: "string option"
  create_priority :: "string option"
  create_due_date :: "date option"

text \<open>
  \<^verbatim>\<open>class TodoItemUpdate(BaseModel)\<close>, after validation: every field is optional with
  default \<^verbatim>\<open>None\<close>, and pydantic records in \<^verbatim>\<open>model_fields_set\<close> the names of the fields
  that the request body supplied (also those supplied as \<^verbatim>\<open>null\<close>).
\<close>

record TodoItemUpdate =
  update_title :: "string option"
  update_description :: "string option"
  update_completed :: "bool option"
  update_priority :: "string option"
  update_due_date :: "date option"
  model_fields_set :: "string set"

record TranslationRequest =
  text_in :: string
  target_language :: string

record TranslationResponse =
  translated_text :: string

section \<open>Exceptions and HTTP responses\<close>

text \<open>
  Every \<^verbatim>\<open>raise\<close> of the source is a value: \<open>HTTPException status detail\<close> is raised by
  the handlers; \<open>RequestValidationError\<close> is raised by FastAPI when the request body does
  not validate against the handler's body model (the handler is not called);
  \<open>Unhandled\<close> is any other exception that leaves a handler.
\<close>

datatype error =
    HTTPException nat string
  | RequestValidationError
  | Unhandled string

datatype content =
    Entity TodoItem
  | Translation TranslationResponse
  | Detail string
  | ValidationDetail
  | PlainText string
  | NoContent

record response =
  status_code :: nat
  content :: content

text \<open>
  FastAPI's exception handling: an \<^verbatim>\<open>HTTPException\<close> becomes its status code with the
  detail as body, a request validation error becomes 422, and an exception that no
  handler catches becomes the plain 500 answer of the server.
\<close>

fun error_response :: "error \<Rightarrow> response" where
  "error_response (HTTPException code detail) = \<lparr>status_code = code, content = Detail detail\<rparr>"
| "error_response RequestValidationError = \<lparr>status_code = 422, content = ValidationDetail\<rparr>"
| "error_response (Unhandled e) = \<lparr>status_code = 500, content = PlainText ''Internal Server Error''\<rparr>"

text \<open>
  The route decorator: a returned value is answered with the decorator's
  \<^verbatim>\<open>status_code\<close> (200 when none is given).
\<close>

definition route :: "nat \<Rightarrow> ('a \<Rightarrow> content) \<Rightarrow> error + 'a \<Rightarrow> response" where
  "route code body r =
     (case r of Inl e \<Rightarrow> error_response e
              | Inr v \<Rightarrow> \<lparr>status_code = code, content = body v\<rparr>)"

section \<open>The store: one SQLite table behind a per-request session\<close>

text \<open>
  \<^verbatim>\<open>get_session\<close> yields one session per request. Its state is the table as the request
  finds it. The other two fields are the environment of the request. \<open>commit_error\<close> is
  \<open>Some e\<close> when the engine raises \<open>e\<close> inside the handler's \<^verbatim>\<open>try\<close> block for a reason
  outside the table's contents (locked database, I/O error), \<open>None\<close> otherwise.
  \<open>rowid_probes\<close> are the candidates, in order, that SQLite's random number generator
  yields during the request should the engine have to probe for an unused rowid.
\<close>

record Session =
  table :: todoitem_table
  commit_error :: "string option"
  rowid_probes :: "int list"

text \<open>
  SQLite integers are 64-bit signed. The driver refuses to bind a Python \<^verbatim>\<open>int\<close> outside
  that range (\<^verbatim>\<open>OverflowError: Python int too large to convert to SQLite INTEGER\<close>).
\<close>

definition sqlite_integer :: "int \<Rightarrow> bool" where
  "sqlite_integer i \<longleftrightarrow> - (2 ^ 63) \<le> i \<and> i < 2 ^ 63"

definition of_row :: "int \<Rightarrow> todoitem_row \<Rightarrow> TodoItem" where
  "of_row pk r =
     \<lparr>id' = Some pk, title = Some (row_title r), description = row_description r,
      completed = Some (row_completed r), priority = row_priority r,
      due_date = row_due_date r\<rparr>"

text \<open>
  \<^verbatim>\<open>session.get(TodoItem, todo_id)\<close>: \<^verbatim>\<open>SELECT ... WHERE id = ?\<close>. The result is the loaded
  object, \<^verbatim>\<open>None\<close> when there is no such row, or the driver's \<^verbatim>\<open>OverflowError\<close>.
\<close>

definition session_get :: "Session \<Rightarrow> int \<Rightarrow> string + TodoItem option" where
  "session_get session pk =
     (if sqlite_integer pk
      then Inr (map_option (of_row pk) (fmlookup (table session) pk))
      else Inl ''OverflowError: Python int too large to convert to SQLite INTEGER'')"

text \<open>
  \<^verbatim>\<open>session.refresh(todo)\<close>: the object is loaded again from its row.
\<close>

definition session_refresh :: "todoitem_table \<Rightarrow> int \<Rightarrow> string + TodoItem" where
  "session_refresh tbl pk =
     (case fmlookup tbl pk of
        None \<Rightarrow> Inl ''InvalidRequestError: Could not refresh instance''
      | Some r \<Rightarrow> Inr (of_row pk r))"

text \<open>
  The table is created without \<^verbatim>\<open>AUTOINCREMENT\<close>, so SQLite gives a new row the rowid
  one above the largest rowid in the table, and 1 in an empty table. When the largest
  rowid is \<open>2^63 - 1\<close> SQLite tries positive candidates at random and takes the first
  that is not in use; it reports \<^verbatim>\<open>SQLITE_FULL\<close> when its attempts find none.
\<close>

definition next_rowid :: "int list \<Rightarrow> todoitem_table \<Rightarrow> int option" where
  "next_rowid probes tbl =
     (if fmdom' tbl = {} then Some 1
      else if Max (fmdom' tbl) < 2 ^ 63 - 1 then Some (Max (fmdom' tbl) + 1)
      else find (\<lambda>k. 1 \<le> k \<and> k < 2 ^ 63 \<and> k \<notin> fmdom' tbl) probes)"

text \<open>
  The \<^verbatim>\<open>INSERT\<close> that \<^verbatim>\<open>session.add\<close> and \<^verbatim>\<open>session.commit\<close> flush for a new object. An
  attribute \<^verbatim>\<open>id\<close> of \<^verbatim>\<open>None\<close> lets the table choose the rowid. SQLAlchemy leaves a
  \<^verbatim>\<open>None\<close> out of the statement when the column has a default, so \<^verbatim>\<open>completed\<close> falls
  back to its default \<^verbatim>\<open>False\<close>; a \<^verbatim>\<open>None\<close> title violates \<^verbatim>\<open>NOT NULL\<close>.
\<close>

definition flush_insert ::
  "int list \<Rightarrow> TodoItem \<Rightarrow> todoitem_table \<Rightarrow> string + int \<times> todoitem_table" where
  "flush_insert probes todo tbl =
     (case title todo of
        None \<Rightarrow> Inl ''IntegrityError: NOT NULL constraint failed: todoitem.title''
      | Some t \<Rightarrow>
          (let r = \<lparr>row_title = t, row_description = description todo,
                    row_completed = (case completed todo of None \<Rightarrow> False | Some c \<Rightarrow> c),
                    row_priority = priority todo, row_due_date = due_date todo\<rparr>
           in case id' todo of
                None \<Rightarrow>
                  (case next_rowid probes tbl of
                     None \<Rightarrow> Inl ''OperationalError: database or disk is full''
                   | Some pk \<Rightarrow> Inr (pk, fmupd pk r tbl))
              | Some pk \<Rightarrow>
                  if \<not> sqlite_integer pk
                  then Inl ''OverflowError: Python int too large to convert to SQLite INTEGER''
                  else if pk \<in> fmdom' tbl
                  then Inl ''IntegrityError: UNIQUE constraint failed: todoitem.id''
                  else Inr (pk, fmupd pk r tbl)))"

text \<open>
  The \<^verbatim>\<open>UPDATE ... WHERE id = pk\<close> flushed for a loaded object whose attributes were
  assigned: a \<^verbatim>\<open>None\<close> in \<^verbatim>\<open>title\<close> or \<^verbatim>\<open>completed\<close> violates \<^verbatim>\<open>NOT NULL\<close>.
\<close>

definition flush_update :: "int \<Rightarrow> TodoItem \<Rightarrow> todoitem_table \<Rightarrow> string + todoitem_table" where
  "flush_update pk todo tbl =
     (case title todo of
        None \<Rightarrow> Inl ''IntegrityError: NOT NULL constraint failed: todoitem.title''
      | Some t \<Rightarrow>
          (case completed todo of
             None \<Rightarrow> Inl ''IntegrityError: NOT NULL constraint failed: todoitem.completed''
           | Some c \<Rightarrow>
               Inr (fmupd pk \<lparr>row_title = t, row_description = description todo,
                              row_completed = c, row_priority = priority todo,
                              row_due_date = due_date todo\<rparr> tbl)))"

text \<open>
  Invariant of the table: every key is an SQLite integer. It holds of the empty table and
  every handler preserves it (lemmas \<open>table_ok_*\<close> below).
\<close>

definition table_ok :: "todoitem_table \<Rightarrow> bool" where
  "table_ok tbl \<longleftrightarrow> (\<forall>pk \<in> fmdom' tbl. sqlite_integer pk)"

section \<open>Read and delete handlers (backend/main.py, lines 100-108 and 132-147)\<close>

definition not_found :: error where
  "not_found = HTTPException 404 ''To-Do item not found''"

text \<open>
  \<^verbatim>\<open>get_todo\<close>: the lookup is not inside a \<^verbatim>\<open>try\<close>, so an exception of the lookup
  leaves the handler.
\<close>

definition get_todo :: "int \<Rightarrow> Session \<Rightarrow> error + TodoItem" where
  "get_todo todo_id session =
     (case session_get session todo_id of
        Inl e \<Rightarrow> Inl (Unhandled e)
      | Inr None \<Rightarrow> Inl not_found
      | Inr (Some todo) \<Rightarrow> Inr todo)"

text \<open>
  \<^verbatim>\<open>delete_todo\<close>: the second component of the result is the table after the request.
\<close>

definition delete_todo :: "int \<Rightarrow> Session \<Rightarrow> (error + unit) \<times> todoitem_table" where
  "delete_todo todo_id session =
     (case session_get session todo_id of
        Inl e \<Rightarrow> (Inl (Unhandled e), table session)
      | Inr None \<Rightarrow> (Inl not_found, table session)
      | Inr (Some todo) \<Rightarrow>
          (case commit_error session of
             Some e \<Rightarrow>
               (Inl (HTTPException 500 (''Failed to delete todo: '' @ e)), table session)
           | None \<Rightarrow> (Inr (), fmdrop todo_id (table session))))"

text \<open>The routes \<^verbatim>\<open>GET /todos/{todo_id}\<close> and \<^verbatim>\<open>DELETE /todos/{todo_id}\<close> (status 204).\<close>

definition get_todos_id :: "int \<Rightarrow> Session \<Rightarrow> response" where
  "get_todos_id todo_id session = route 200 Entity (get_todo todo_id session)"

definition delete_todos_id :: "int \<Rightarrow> Session \<Rightarrow> response \<times> todoitem_table" where
  "delete_todos_id todo_id session =
     (case delete_todo todo_id session of
        (r, tbl) \<Rightarrow> (route 204 (\<lambda>_. NoContent) r, tbl))"

section \<open>Request bodies and their validation (pydantic)\<close>

text \<open>
  A JSON request body, one entry per key the body models declare. For each key:
  \<open>Absent\<close> when the body does not have the key, \<open>Null\<close> for JSON \<^verbatim>\<open>null\<close>, \<open>Val v\<close>
  for a JSON value that pydantic's validator of the field's type accepts, as \<open>v\<close>, and
  \<open>Bad\<close> for a JSON value that the validator rejects. Keys that a body model does not
  declare are ignored by pydantic (\<^verbatim>\<open>completed\<close> for \<^verbatim>\<open>TodoItemCreate\<close>).
\<close>

datatype 'a json_field = Absent | Null | Val 'a | Bad

record json_body =
  json_title :: "string json_field"
  json_description :: "string json_field"
  json_completed :: "bool json_field"
  json_priority :: "string json_field"
  json_due_date :: "date json_field"

text \<open>The value of an \<^verbatim>\<open>Optional[...] = None\<close> field once the body validated.\<close>

fun optional_field :: "'a json_field \<Rightarrow> 'a option" where
  "optional_field (Val v) = Some v"
| "optional_field Absent = None"
| "optional_field Null = None"
| "optional_field Bad = None"

text \<open>
  \<^verbatim>\<open>TodoItemCreate\<close>: \<^verbatim>\<open>title: str\<close> is required and not optional, so a missing title, a
  \<^verbatim>\<open>null\<close> title and a title that is not text are all refused. No field has a length
  constraint.
\<close>

definition validate_TodoItemCreate :: "json_body \<Rightarrow> error + TodoItemCreate" where
  "validate_TodoItemCreate body =
     (case json_title body of
        Val t \<Rightarrow>
          if json_description body = Bad \<or> json_priority body = Bad \<or> json_due_date body = Bad
          then Inl RequestValidationError
          else Inr \<lparr>create_title = t,
                    create_description = optional_field (json_description body),
                    create_priority = optional_field (json_priority body),
                    create_due_date = optional_field (json_due_date body)\<rparr>
      | Absent \<Rightarrow> Inl RequestValidationError
      | Null \<Rightarrow> Inl RequestValidationError
      | Bad \<Rightarrow> Inl RequestValidationError)"

definition supplied :: "string \<Rightarrow> 'a json_field \<Rightarrow> string set" where
  "supplied name f = (if f = Absent then {} else {name})"

definition validate_TodoItemUpdate :: "json_body \<Rightarrow> error + TodoItemUpdate" where
  "validate_TodoItemUpdate body =
     (if json_title body = Bad \<or> json_description body = Bad \<or> json_completed body = Bad
         \<or> json_priority body = Bad \<or> json_due_date body = Bad
      then Inl RequestValidationError
      else Inr \<lparr>update_title = optional_field (json_title body),
                update_description = optional_field (json_description body),
                update_completed = optional_field (json_completed body),
                update_priority = optional_field (json_priority body),
                update_due_date = optional_field (json_due_date body),
                model_fields_set =
                  supplied ''title'' (json_title body)
                  \<union> supplied ''description'' (json_description body)
                  \<union> supplied ''completed'' (json_completed body)
                  \<union> supplied ''priority'' (json_priority body)
                  \<union> supplied ''due_date'' (json_due_date body)\<rparr>)"

text \<open>
  The body of \<^verbatim>\<open>POST /translate\<close>. \<^verbatim>\<open>TranslationRequest\<close> declares \<^verbatim>\<open>text: str\<close> and
  \<^verbatim>\<open>target_language: str\<close>, both required and not optional.
\<close>

record translate_body =
  json_text :: "string json_field"
  json_target_language :: "string json_field"

definition validate_TranslationRequest :: "translate_body \<Rightarrow> error + TranslationRequest" where
  "validate_TranslationRequest body =
     (case json_text body of
        Val t \<Rightarrow>
          (case json_target_language body of
             Val l \<Rightarrow> Inr \<lparr>text_in = t, target_language = l\<rparr>
           | Absent \<Rightarrow> Inl RequestValidationError
           | Null \<Rightarrow> Inl RequestValidationError
           | Bad \<Rightarrow> Inl RequestValidationError)
      | Absent \<Rightarrow> Inl RequestValidationError
      | Null \<Rightarrow> Inl RequestValidationError
      | Bad \<Rightarrow> Inl RequestValidationError)"

section \<open>Create (backend/main.py, lines 84-97)\<close>

text \<open>
  \<^verbatim>\<open>TodoItem.model_validate(todo_create)\<close> reads the attributes of the
  \<^verbatim>\<open>TodoItemCreate\<close> object and validates them against the fields of \<^verbatim>\<open>TodoItem\<close>:
  \<^verbatim>\<open>id\<close> and \<^verbatim>\<open>completed\<close> are not attributes of the input and take their defaults, and
  \<^verbatim>\<open>priority\<close> is checked against \<^verbatim>\<open>max_length=50\<close>. A failure is pydantic's
  \<^verbatim>\<open>ValidationError\<close>.
\<close>

definition model_validate :: "TodoItemCreate \<Rightarrow> string + TodoItem" where
  "model_validate todo_create =
     (if (case create_priority todo_create of None \<Rightarrow> False | Some p \<Rightarrow> 50 < length p)
      then Inl ''ValidationError: priority: String should have at most 50 characters''
      else Inr \<lparr>id' = None, title = Some (create_title todo_create),
                description = create_description todo_create,
                completed = Some False,
                priority = create_priority todo_create,
                due_date = create_due_date todo_create\<rparr>)"

text \<open>
  \<^verbatim>\<open>create_todo\<close>: \<^verbatim>\<open>model_validate\<close> stands before the \<^verbatim>\<open>try\<close>, so its exception leaves
  the handler; an exception of \<^verbatim>\<open>add\<close>, \<^verbatim>\<open>commit\<close> or \<^verbatim>\<open>refresh\<close> is caught and raised again
  as status 500. The second component of the result is the table after the request.
\<close>

definition create_todo :: "TodoItemCreate \<Rightarrow> Session \<Rightarrow> (error + TodoItem) \<times> todoitem_table" where
  "create_todo todo_create session =
     (case model_validate todo_create of
        Inl e \<Rightarrow> (Inl (Unhandled e), table session)
      | Inr db_todo \<Rightarrow>
          (case flush_insert (rowid_probes session) db_todo (table session) of
             Inl e \<Rightarrow>
               (Inl (HTTPException 500 (''Failed to create todo: '' @ e)), table session)
           | Inr (pk, tbl) \<Rightarrow>
               (case commit_error session of
                  Some e \<Rightarrow>
                    (Inl (HTTPException 500 (''Failed to create todo: '' @ e)), table session)
                | None \<Rightarrow>
                    (case session_refresh tbl pk of
                       Inl e \<Rightarrow> (Inl (HTTPException 500 (''Failed to create todo: '' @ e)), tbl)
                     | Inr todo \<Rightarrow> (Inr todo, tbl)))))"

text \<open>
  The route \<^verbatim>\<open>POST /todos\<close> (status 201): FastAPI validates the body first and calls the
  handler only with a valid \<^verbatim>\<open>TodoItemCreate\<close>.
\<close>

definition post_todos :: "json_body \<Rightarrow> Session \<Rightarrow> response \<times> todoitem_table" where
  "post_todos body session =
     (case validate_TodoItemCreate body of
        Inl e \<Rightarrow> (error_response e, table session)
      | Inr todo_create \<Rightarrow>
          (case create_todo todo_create session of
             (r, tbl) \<Rightarrow> (route 201 Entity r, tbl)))"

section \<open>Update (backend/main.py, lines 110-130)\<close>

text \<open>
  One item of the dictionary \<^verbatim>\<open>update_data\<close>: the key with its validated value.
\<close>

datatype field_value =
    Title "string option"
  | Description "string option"
  | Completed "bool option"
  | Priority "string option"
  | DueDate "date option"

text \<open>
  \<^verbatim>\<open>todo_update.model_dump(exclude_unset=True)\<close>: the fields in \<^verbatim>\<open>model_fields_set\<close>, in
  the order of their declaration, each with its value (which may be \<^verbatim>\<open>None\<close>).
\<close>

definition model_dump_exclude_unset :: "TodoItemUpdate \<Rightarrow> field_value list" where
  "model_dump_exclude_unset todo_update =
     (if ''title'' \<in> model_fields_set todo_update then [Title (update_title todo_update)] else [])
     @ (if ''description'' \<in> model_fields_set todo_update
        then [Description (update_description todo_update)] else [])
     @ (if ''completed'' \<in> model_fields_set todo_update
        then [Completed (update_completed todo_update)] else [])
     @ (if ''priority'' \<in> model_fields_set todo_update
        then [Priority (update_priority todo_update)] else [])
     @ (if ''due_date'' \<in> model_fields_set todo_update
        then [DueDate (update_due_date todo_update)] else [])"

text \<open>
  \<^verbatim>\<open>todo.sqlmodel_update(update_data)\<close>: \<^verbatim>\<open>setattr(todo, key, value)\<close> for every item. A
  table model does not validate the assignment.
\<close>

fun setattr :: "TodoItem \<Rightarrow> field_value \<Rightarrow> TodoItem" where
  "setattr todo (Title v) = todo\<lparr>title := v\<rparr>"
| "setattr todo (Description v) = todo\<lparr>description := v\<rparr>"
| "setattr todo (Completed v) = todo\<lparr>completed := v\<rparr>"
| "setattr todo (Priority v) = todo\<lparr>priority := v\<rparr>"
| "setattr todo (DueDate v) = todo\<lparr>due_date := v\<rparr>"

definition sqlmodel_update :: "TodoItem \<Rightarrow> field_value list \<Rightarrow> TodoItem" where
  "sqlmodel_update todo update_data = foldl setattr todo update_data"

definition update_todo ::
  "int \<Rightarrow> TodoItemUpdate \<Rightarrow> Session \<Rightarrow> (error + TodoItem) \<times> todoitem_table" where
  "update_todo todo_id todo_update session =
     (case session_get session todo_id of
        Inl e \<Rightarrow> (Inl (Unhandled e), table session)
      | Inr None \<Rightarrow> (Inl not_found, table session)
      | Inr (Some todo) \<Rightarrow>
          (let update_data = model_dump_exclude_unset todo_update;
               todo' = sqlmodel_update todo update_data
           in case flush_update todo_id todo' (table session) of
                Inl e \<Rightarrow>
                  (Inl (HTTPException 500 (''Failed to update todo: '' @ e)), table session)
              | Inr tbl \<Rightarrow>
                  (case commit_error session of
                     Some e \<Rightarrow>
                       (Inl (HTTPException 500 (''Failed to update todo: '' @ e)), table session)
                   | None \<Rightarrow>
                       (case session_refresh tbl todo_id of
                          Inl e \<Rightarrow>
                            (Inl (HTTPException 500 (''Failed to update todo: '' @ e)), tbl)
                        | Inr todo'' \<Rightarrow> (Inr todo'', tbl)))))"

text \<open>The route \<^verbatim>\<open>PUT /todos/{todo_id}\<close> (status 200), body validation first.\<close>

definition put_todos_id :: "int \<Rightarrow> json_body \<Rightarrow> Session \<Rightarrow> response \<times> todoitem_table" where
  "put_todos_id todo_id body session =
     (case validate_TodoItemUpdate body of
        Inl e \<Rightarrow> (error_response e, table session)
      | Inr todo_update \<Rightarrow>
          (case update_todo todo_id todo_update session of
             (r, tbl) \<Rightarrow> (route 200 Entity r, tbl)))"

text \<open>The body \<^verbatim>\<open>{}\<close>, and the body \<^verbatim>\<open>{"title": t}\<close>.\<close>

definition empty_body :: json_body where
  "empty_body =
     \<lparr>json_title = Absent, json_description = Absent, json_completed = Absent,
      json_priority = Absent, json_due_date = Absent\<rparr>"

definition title_only :: "string \<Rightarrow> json_body" where
  "title_only t = empty_body\<lparr>json_title := Val t\<rparr>"

section \<open>Translation (backend/main.py, lines 15-23 and 149-160)\<close>

text \<open>
  The external model is opaque: \<^verbatim>\<open>generate_content(prompt).text\<close> either raises (\<open>Inl\<close>,
  the exception's text) or yields the generated text.
\<close>

type_synonym GenerativeModel = "string \<Rightarrow> string + string"

text \<open>
  Module start-up: \<^verbatim>\<open>GOOGLE_API_KEY = os.getenv(...)\<close> is \<^verbatim>\<open>None\<close> when the variable is not
  set; \<^verbatim>\<open>not GOOGLE_API_KEY\<close> also holds of the empty string. \<open>genai\<close> stands for
  \<^verbatim>\<open>genai.configure\<close> followed by \<^verbatim>\<open>genai.GenerativeModel\<close>, which may raise. Every
  exception leaves \<^verbatim>\<open>gemini_model = None\<close>.
\<close>

definition gemini_model ::
  "string option \<Rightarrow> (string \<Rightarrow> string + GenerativeModel) \<Rightarrow> GenerativeModel option" where
  "gemini_model google_api_key genai =
     (case google_api_key of
        None \<Rightarrow> None
      | Some k \<Rightarrow>
          if k = [] then None
          else (case genai k of Inl e \<Rightarrow> None | Inr m \<Rightarrow> Some m))"

text \<open>
  \<^verbatim>\<open>translate_text\<close>: the second component of the result lists the prompts submitted to
  the external service during the request.
\<close>

definition translate_text ::
  "GenerativeModel option \<Rightarrow> TranslationRequest \<Rightarrow> (error + TranslationResponse) \<times> string list" where
  "translate_text model request =
     (case model of
        None \<Rightarrow>
          (Inl (HTTPException 503
             ''Translation service not available. API key might be missing or invalid.''), [])
      | Some m \<Rightarrow>
          (let prompt = ''Translate the following text into '' @ target_language request
                        @ '': '' @ text_in request
           in case m prompt of
                Inl e \<Rightarrow> (Inl (HTTPException 500 (''Failed to translate text: '' @ e)), [prompt])
              | Inr translated_content \<Rightarrow>
                  (Inr \<lparr>translated_text = translated_content\<rparr>, [prompt])))"

text \<open>
  The route \<^verbatim>\<open>POST /translate\<close>: FastAPI validates the body against
  \<^verbatim>\<open>TranslationRequest\<close> first and calls the handler only with a valid one; a body that
  does not validate is answered 422 and nothing is submitted.
\<close>

definition post_translate ::
  "GenerativeModel option \<Rightarrow> translate_body \<Rightarrow> response \<times> string list" where
  "post_translate model body =
     (case validate_TranslationRequest body of
        Inl e \<Rightarrow> (error_response e, [])
      | Inr request \<Rightarrow>
          (case translate_text model request of
             (r, calls) \<Rightarrow> (route 200 Translation r, calls)))"

section \<open>The add form of the front end (frontend/app.py, lines 33-49 and 106-145)\<close>

text \<open>
  \<^verbatim>\<open>add_todo_to_backend\<close> builds the body: the title always, each other field only when
  its value is truthy. It answers whether the request succeeded
  (\<^verbatim>\<open>raise_for_status\<close> raises from status 400 on).
\<close>

definition request_data ::
  "string \<Rightarrow> string option \<Rightarrow> string option \<Rightarrow> date option \<Rightarrow> json_body" where
  "request_data t d p dd =
     \<lparr>json_title = Val t,
      json_description = (case d of None \<Rightarrow> Absent | Some x \<Rightarrow> if x = [] then Absent else Val x),
      json_completed = Absent,
      json_priority = (case p of None \<Rightarrow> Absent | Some x \<Rightarrow> if x = [] then Absent else Val x),
      json_due_date = (case dd of None \<Rightarrow> Absent | Some x \<Rightarrow> Val x)\<rparr>"

definition add_todo_to_backend ::
  "string \<Rightarrow> string option \<Rightarrow> string option \<Rightarrow> date option \<Rightarrow> Session \<Rightarrow> bool \<times> todoitem_table" where
  "add_todo_to_backend t d p dd session =
     (case post_todos (request_data t d p dd) session of
        (resp, tbl) \<Rightarrow> (status_code resp < 400, tbl))"

text \<open>
  The form's submit branch: \<open>None\<close> is the warning \<^verbatim>\<open>Please enter a title\<close>, shown
  without any request when the title is empty.
\<close>

definition add_todo_form ::
  "string \<Rightarrow> string \<Rightarrow> string \<Rightarrow> date option \<Rightarrow> Session \<Rightarrow> bool option \<times> todoitem_table" where
  "add_todo_form new_title new_description new_priority new_due_date session =
     (let submitted_priority = (if new_priority \<noteq> ''None'' then Some new_priority else None)
      in if new_title \<noteq> []
         then (case add_todo_to_backend new_title (Some new_description) submitted_priority
                      new_due_date session of
                 (success, tbl) \<Rightarrow> (Some success, tbl))
         else (None, table session))"

section \<open>Example stores\<close>

text \<open>
  The entity of the scenario \<^verbatim>\<open>POST {"title": "Buy milk"}\<close>, here with a description, and
  the session of a request that finds it stored under id 1.
\<close>

definition buy_milk :: todoitem_row where
  "buy_milk =
     \<lparr>row_title = ''Buy milk'', row_description = Some ''2 litres'', row_completed = False,
      row_priority = None, row_due_date = None\<rparr>"

definition one_todo :: Session where
  "one_todo = \<lparr>table = fmupd 1 buy_milk fmempty, commit_error = None, rowid_probes = []\<rparr>"

text \<open>A second entity, and the session of a request that finds both stored.\<close>

definition walk_the_dog :: todoitem_row where
  "walk_the_dog =
     \<lparr>row_title = ''Walk the dog'', row_description = None, row_completed = True,
      row_priority = Some ''High'', row_due_date = Some (Date 2025 1 31)\<rparr>"

definition two_todos :: Session where
  "two_todos =
     \<lparr>table = fmupd 2 walk_the_dog (fmupd 1 buy_milk fmempty), commit_error = None,
      rowid_probes = []\<rparr>"

section \<open>Sequences of requests\<close>

text \<open>
  One request to the entity routes. Each request is served by its own session: the
  table is the one the previous request left, the rest of the session is the request's
  own environment.
\<close>

datatype request =
    POST json_body
  | GET int
  | PUT int json_body
  | DELETE int

fun handle :: "request \<Rightarrow> Session \<Rightarrow> response \<times> todoitem_table" where
  "handle (POST body) session = post_todos body session"
| "handle (GET todo_id) session = (get_todos_id todo_id session, table session)"
| "handle (PUT todo_id body) session = put_todos_id todo_id body session"
| "handle (DELETE todo_id) session = delete_todos_id todo_id session"

text \<open>
  Serving requests in order from a table: the answers, and the table at the end. The
  \<open>table\<close> field of a request's environment is not read.
\<close>

fun serve :: "(request \<times> Session) list \<Rightarrow> todoitem_table \<Rightarrow> response list \<times> todoitem_table" where
  "serve [] tbl = ([], tbl)"
| "serve ((req, env) # rest) tbl =
     (case handle req (env\<lparr>table := tbl\<rparr>) of
        (resp, tbl') \<Rightarrow>
          (case serve rest tbl' of
             (resps, tbl'') \<Rightarrow> (resp # resps, tbl'')))"

text \<open>An answer 201 that carries an entity with the given id: a create was assigned it.\<close>

definition assigned :: "int \<Rightarrow> response \<Rightarrow> bool" where
  "assigned todo_id resp =
     (case content resp of
        Entity todo \<Rightarrow> status_code resp = 201 \<and> id' todo = Some todo_id
      | _ \<Rightarrow> False)"

section \<open>Facts about the store\<close>

lemma session_get_found:
  "sqlite_integer pk \<Longrightarrow> fmlookup (table session) pk = Some r \<Longrightarrow>
   session_get session pk = Inr (Some (of_row pk r))"
  by (simp add: session_get_def)

lemma session_get_absent:
  "sqlite_integer pk \<Longrightarrow> fmlookup (table session) pk = None \<Longrightarrow>
   session_get session pk = Inr None"
  by (simp add: session_get_def)

lemma table_ok_lookup:
  "table_ok tbl \<Longrightarrow> fmlookup tbl pk = Some r \<Longrightarrow> sqlite_integer pk"
  by (auto simp: table_ok_def dest: fmdom'I)

lemma fmupd_same:
  "fmlookup tbl pk = Some r \<Longrightarrow> fmupd pk r tbl = tbl"
  by (rule fmap_ext) auto

lemma row_eta:
  "\<lparr>row_title = row_title r, row_description = row_description r,
    row_completed = row_completed r, row_priority = row_priority r,
    row_due_date = row_due_date r\<rparr> = r"
  by (cases r) simp

text \<open>The rowid SQLite chooses is not in the table, and it is an SQLite integer.\<close>

lemma next_rowid_nonempty:
  assumes "fmdom' tbl \<noteq> {}" and "m = Max (fmdom' tbl)"
  shows "next_rowid probes tbl =
      (if m < 2 ^ 63 - 1 then Some (m + 1)
       else find (\<lambda>k. 1 \<le> k \<and> k < 2 ^ 63 \<and> k \<notin> fmdom' tbl) probes)"
  using assms by (simp add: next_rowid_def)

lemma next_rowid_fresh:
  assumes "next_rowid probes tbl = Some pk"
  shows "pk \<notin> fmdom' tbl"
proof (cases "fmdom' tbl = {}")
  case True
  then show ?thesis by simp
next
  case False
  define m where "m = Max (fmdom' tbl)"
  note nr = next_rowid_nonempty [OF False m_def, of probes]
  show ?thesis
  proof (cases "m < 2 ^ 63 - 1")
    case True
    with nr assms have pk: "pk = m + 1" by simp
    show ?thesis
    proof
      assume "pk \<in> fmdom' tbl"
      then have "pk \<le> m"
        unfolding m_def by simp
      with pk show False by simp
    qed
  next
    case False
    with nr assms
    have "find (\<lambda>k. 1 \<le> k \<and> k < 2 ^ 63 \<and> k \<notin> fmdom' tbl) probes = Some pk"
      by simp
    then show ?thesis
      by (auto simp: find_Some_iff)
  qed
qed

lemma next_rowid_integer:
  assumes "table_ok tbl" and "next_rowid probes tbl = Some pk"
  shows "sqlite_integer pk"
proof (cases "fmdom' tbl = {}")
  case True
  with assms show ?thesis by (simp add: next_rowid_def sqlite_integer_def)
next
  case False
  define m where "m = Max (fmdom' tbl)"
  note nr = next_rowid_nonempty [OF False m_def, of probes]
  have "m \<in> fmdom' tbl"
    unfolding m_def using False by simp
  with assms(1) have lo: "- (2 ^ 63) \<le> m"
    by (simp add: table_ok_def sqlite_integer_def)
  show ?thesis
  proof (cases "m < 2 ^ 63 - 1")
    case True
    with nr assms(2) have "pk = m + 1" by simp
    with lo True show ?thesis
      by (simp add: sqlite_integer_def)
  next
    case False
    with nr assms(2)
    have "find (\<lambda>k. 1 \<le> k \<and> k < 2 ^ 63 \<and> k \<notin> fmdom' tbl) probes = Some pk"
      by simp
    then have "1 \<le> pk \<and> pk < 2 ^ 63"
      by (auto simp: find_Some_iff)
    then show ?thesis
      by (simp add: sqlite_integer_def)
  qed
qed

text \<open>
  The handlers' answer for an id in the range of SQLite's integers under which nothing is
  stored: \<^verbatim>\<open>HTTPException(404)\<close>, and the table is left as it was.
\<close>

lemma absent_id_in_range:
  assumes "sqlite_integer todo_id" and "fmlookup (table session) todo_id = None"
  shows "get_todo todo_id session = Inl (HTTPException 404 ''To-Do item not found'')
       \<and> status_code (get_todos_id todo_id session) = 404
       \<and> update_todo todo_id todo_update session
           = (Inl (HTTPException 404 ''To-Do item not found''), table session)
       \<and> delete_todo todo_id session
           = (Inl (HTTPException 404 ''To-Do item not found''), table session)
       \<and> status_code (fst (delete_todos_id todo_id session)) = 404
       \<and> snd (delete_todos_id todo_id session) = table session"
  using session_get_absent [OF assms]
  by (simp add: get_todo_def get_todos_id_def update_todo_def
      delete_todo_def delete_todos_id_def route_def not_found_def)

lemma two_todos_drop: "fmdrop 1 (table two_todos) = fmupd 2 walk_the_dog fmempty"
  by (rule fmap_ext) (simp add: two_todos_def)

section \<open>Facts about create\<close>

lemma create_todo_success:
  assumes "create_todo c session = (Inr todo, tbl)"
  shows "\<exists>pk. next_rowid (rowid_probes session) (table session) = Some pk
            \<and> commit_error session = None
            \<and> tbl = fmupd pk \<lparr>row_title = create_title c,
                               row_description = create_description c,
                               row_completed = False,
                               row_priority = create_priority c,
                               row_due_date = create_due_date c\<rparr> (table session)
            \<and> todo = \<lparr>id' = Some pk, title = Some (create_title c),
                       description = create_description c, completed = Some False,
                       priority = create_priority c, due_date = create_due_date c\<rparr>
            \<and> (\<forall>p. create_priority c = Some p \<longrightarrow> length p \<le> 50)"
  using assms
  by (auto simp: create_todo_def model_validate_def flush_insert_def session_refresh_def
      of_row_def split: if_splits option.splits sum.splits)

lemma create_todo_failure:
  assumes "create_todo c session = (Inl e, tbl)"
  shows "tbl = table session \<and> status_code (error_response e) = 500"
  using assms
  by (auto simp: create_todo_def model_validate_def flush_insert_def session_refresh_def
      split: if_splits option.splits sum.splits)

lemma validate_TodoItemCreate_error:
  "validate_TodoItemCreate body = Inl e \<Longrightarrow> e = RequestValidationError"
  by (auto simp: validate_TodoItemCreate_def split: json_field.splits if_splits)

lemma validate_TodoItemCreate_ok:
  assumes "validate_TodoItemCreate body = Inr c"
  shows "json_title body = Val (create_title c)
       \<and> create_description c = optional_field (json_description body)
       \<and> create_priority c = optional_field (json_priority body)
       \<and> create_due_date c = optional_field (json_due_date body)"
  using assms
  by (auto simp: validate_TodoItemCreate_def split: json_field.splits if_splits)

text \<open>Status 201 is answered only when the handler returned the created entity.\<close>

lemma post_todos_created:
  assumes "post_todos body session = (resp, tbl)" and "status_code resp = 201"
  shows "\<exists>c todo. validate_TodoItemCreate body = Inr c
                \<and> create_todo c session = (Inr todo, tbl)
                \<and> content resp = Entity todo"
proof (cases "validate_TodoItemCreate body")
  case (Inl e)
  with assms validate_TodoItemCreate_error [OF Inl] show ?thesis
    by (auto simp: post_todos_def)
next
  case (Inr c)
  obtain res tbl' where ct: "create_todo c session = (res, tbl')"
    by (cases "create_todo c session")
  with Inr assms(1) have resp: "resp = route 201 Entity res" and same: "tbl' = tbl"
    by (simp_all add: post_todos_def)
  show ?thesis
  proof (cases res)
    case (Inl e)
    with ct resp assms(2) create_todo_failure [of c session e tbl'] show ?thesis
      by (simp add: route_def)
  next
    case (Inr todo)
    with ct resp same \<open>validate_TodoItemCreate body = Inr c\<close> show ?thesis
      by (simp add: route_def)
  qed
qed

text \<open>
  The create path enforces the declared bound on \<^verbatim>\<open>priority\<close>: a longer one never
  reaches the table.
\<close>

lemma post_todos_not_created:
  assumes "post_todos body session = (resp, tbl)" and "status_code resp \<noteq> 201"
  shows "tbl = table session"
proof (cases "validate_TodoItemCreate body")
  case (Inl e)
  with assms show ?thesis by (simp add: post_todos_def)
next
  case (Inr c)
  obtain res tbl' where ct: "create_todo c session = (res, tbl')"
    by (cases "create_todo c session")
  with Inr assms(1) have resp: "resp = route 201 Entity res" and same: "tbl' = tbl"
    by (simp_all add: post_todos_def)
  show ?thesis
  proof (cases res)
    case (Inl e)
    with ct same create_todo_failure [of c session e tbl'] show ?thesis
      by simp
  next
    case (Inr todo)
    with resp assms(2) show ?thesis
      by (simp add: route_def)
  qed
qed

lemma create_priority_bounded:
  assumes "post_todos body session = (resp, tbl)" and "status_code resp = 201"
  shows "\<forall>p. json_priority body = Val p \<longrightarrow> length p \<le> 50"
proof -
  from post_todos_created [OF assms] obtain c todo where
    v: "validate_TodoItemCreate body = Inr c" and ct: "create_todo c session = (Inr todo, tbl)"
    by blast
  from validate_TodoItemCreate_ok [OF v] create_todo_success [OF ct] show ?thesis
    by auto
qed

lemma create_long_priority_refused:
  assumes "json_priority body = Val p" and "50 < length p"
  shows "snd (post_todos body session) = table session
       \<and> status_code (fst (post_todos body session)) \<in> {422, 500}"
  using assms
  by (auto simp: post_todos_def validate_TodoItemCreate_def create_todo_def
      model_validate_def route_def split: json_field.splits)

section \<open>Facts about update\<close>

text \<open>
  \<^verbatim>\<open>model_dump(exclude_unset=True)\<close> followed by \<^verbatim>\<open>sqlmodel_update\<close> assigns exactly the
  fields in \<^verbatim>\<open>model_fields_set\<close>.
\<close>

lemma sqlmodel_update_dump:
  "sqlmodel_update todo (model_dump_exclude_unset u) =
     \<lparr>id' = id' todo,
      title = (if ''title'' \<in> model_fields_set u then update_title u else title todo),
      description = (if ''description'' \<in> model_fields_set u then update_description u
                     else description todo),
      completed = (if ''completed'' \<in> model_fields_set u then update_completed u
                   else completed todo),
      priority = (if ''priority'' \<in> model_fields_set u then update_priority u
                  else priority todo),
      due_date = (if ''due_date'' \<in> model_fields_set u then update_due_date u
                  else due_date todo)\<rparr>"
  by (cases todo) (simp add: sqlmodel_update_def model_dump_exclude_unset_def)

lemma validate_TodoItemUpdate_error:
  "validate_TodoItemUpdate body = Inl e \<Longrightarrow> e = RequestValidationError"
  by (auto simp: validate_TodoItemUpdate_def split: if_splits)

lemma validated_fields_set:
  assumes "validate_TodoItemUpdate body = Inr u"
  shows "(''title'' \<in> model_fields_set u \<longleftrightarrow> json_title body \<noteq> Absent)
       \<and> (''description'' \<in> model_fields_set u \<longleftrightarrow> json_description body \<noteq> Absent)
       \<and> (''completed'' \<in> model_fields_set u \<longleftrightarrow> json_completed body \<noteq> Absent)
       \<and> (''priority'' \<in> model_fields_set u \<longleftrightarrow> json_priority body \<noteq> Absent)
       \<and> (''due_date'' \<in> model_fields_set u \<longleftrightarrow> json_due_date body \<noteq> Absent)"
  using assms
  by (auto simp: validate_TodoItemUpdate_def supplied_def split: if_splits)

lemma validated_values:
  assumes "validate_TodoItemUpdate body = Inr u"
  shows "update_title u = optional_field (json_title body)
       \<and> update_description u = optional_field (json_description body)
       \<and> update_completed u = optional_field (json_completed body)
       \<and> update_priority u = optional_field (json_priority body)
       \<and> update_due_date u = optional_field (json_due_date body)"
  using assms
  by (auto simp: validate_TodoItemUpdate_def split: if_splits)

lemma optional_field_Some: "optional_field f = Some v \<longleftrightarrow> f = Val v"
  by (cases f) auto

lemma validate_empty_body:
  "validate_TodoItemUpdate empty_body =
     Inr \<lparr>update_title = None, update_description = None, update_completed = None,
          update_priority = None, update_due_date = None, model_fields_set = {}\<rparr>"
  by (simp add: validate_TodoItemUpdate_def empty_body_def supplied_def)

text \<open>The handler on an id that is stored: what is left is the flush and the commit.\<close>

lemma update_todo_found:
  assumes "sqlite_integer todo_id" and "fmlookup (table session) todo_id = Some r"
  shows "update_todo todo_id u session =
     (case flush_update todo_id (sqlmodel_update (of_row todo_id r) (model_dump_exclude_unset u))
             (table session) of
        Inl e \<Rightarrow> (Inl (HTTPException 500 (''Failed to update todo: '' @ e)), table session)
      | Inr tbl \<Rightarrow>
          (case commit_error session of
             Some e \<Rightarrow> (Inl (HTTPException 500 (''Failed to update todo: '' @ e)), table session)
           | None \<Rightarrow> (Inr (the (map_option (of_row todo_id) (fmlookup tbl todo_id))), tbl)))"
  using session_get_found [OF assms]
  by (auto simp: update_todo_def Let_def flush_update_def session_refresh_def
      split: sum.splits option.splits)

lemma put_todos_id_split:
  assumes "validate_TodoItemUpdate body = Inr u"
  shows "put_todos_id todo_id body session =
           (route 200 Entity (fst (update_todo todo_id u session)),
            snd (update_todo todo_id u session))"
  using assms by (simp add: put_todos_id_def split: prod.splits)

text \<open>
  The frame of an update on a stored id: whatever the outcome, the row stays stored, the
  other rows are untouched and every column whose key the body lacks keeps its value;
  with status 200 every supplied key holds the supplied value.
\<close>

lemma put_todos_id_frame:
  assumes "fmlookup (table session) todo_id = Some r"
    and "put_todos_id todo_id body session = (resp, tbl)"
  shows "\<exists>r'. fmlookup tbl todo_id = Some r'
      \<and> (\<forall>pk. pk \<noteq> todo_id \<longrightarrow> fmlookup tbl pk = fmlookup (table session) pk)
      \<and> (json_title body = Absent \<longrightarrow> row_title r' = row_title r)
      \<and> (json_description body = Absent \<longrightarrow> row_description r' = row_description r)
      \<and> (json_completed body = Absent \<longrightarrow> row_completed r' = row_completed r)
      \<and> (json_priority body = Absent \<longrightarrow> row_priority r' = row_priority r)
      \<and> (json_due_date body = Absent \<longrightarrow> row_due_date r' = row_due_date r)
      \<and> (status_code resp = 200 \<longrightarrow>
            content resp = Entity (of_row todo_id r')
          \<and> (json_title body \<noteq> Absent \<longrightarrow> json_title body = Val (row_title r'))
          \<and> (json_description body \<noteq> Absent \<longrightarrow>
                row_description r' = optional_field (json_description body))
          \<and> (json_completed body \<noteq> Absent \<longrightarrow> json_completed body = Val (row_completed r'))
          \<and> (json_priority body \<noteq> Absent \<longrightarrow>
                row_priority r' = optional_field (json_priority body))
          \<and> (json_due_date body \<noteq> Absent \<longrightarrow>
                row_due_date r' = optional_field (json_due_date body)))
      \<and> (status_code resp \<noteq> 200 \<longrightarrow> tbl = table session)"
proof (cases "validate_TodoItemUpdate body")
  case (Inl e)
  with assms validate_TodoItemUpdate_error [OF Inl] show ?thesis
    by (auto simp: put_todos_id_def)
next
  case (Inr u)
  note fs = validated_fields_set [OF Inr] and vs = validated_values [OF Inr]
  show ?thesis
  proof (cases "sqlite_integer todo_id")
    case False
    with Inr assms show ?thesis
      by (auto simp: put_todos_id_def update_todo_def session_get_def route_def)
  next
    case True
    from assms(2) have resp: "resp = route 200 Entity (fst (update_todo todo_id u session))"
      and tbl: "tbl = snd (update_todo todo_id u session)"
      by (simp_all add: put_todos_id_split [OF Inr])
    show ?thesis
      unfolding resp tbl update_todo_found [OF True assms(1)] sqlmodel_update_dump
      using assms(1) fs vs
      by (auto simp: flush_update_def of_row_def route_def optional_field_Some
          split: option.splits)
  qed
qed

text \<open>An explicit \<^verbatim>\<open>null\<close> for an optional column clears it.\<close>

lemma put_null_description:
  assumes "table_ok (table session)"
    and "fmlookup (table session) todo_id = Some r"
    and "commit_error session = None"
  shows "put_todos_id todo_id (empty_body\<lparr>json_description := Null\<rparr>) session =
           (\<lparr>status_code = 200,
             content = Entity (of_row todo_id (r\<lparr>row_description := None\<rparr>))\<rparr>,
            fmupd todo_id (r\<lparr>row_description := None\<rparr>) (table session))"
proof -
  have int: "sqlite_integer todo_id"
    using assms(1,2) by (rule table_ok_lookup)
  have "validate_TodoItemUpdate (empty_body\<lparr>json_description := Null\<rparr>) =
          Inr \<lparr>update_title = None, update_description = None, update_completed = None,
               update_priority = None, update_due_date = None,
               model_fields_set = {''description''}\<rparr>"
    by (simp add: validate_TodoItemUpdate_def empty_body_def supplied_def)
  then show ?thesis
    using assms(3)
    by (cases r)
      (simp add: put_todos_id_def update_todo_found [OF int assms(2)] sqlmodel_update_dump
        flush_update_def of_row_def route_def)
qed

text \<open>An explicit \<^verbatim>\<open>null\<close> for the title is refused by the table; nothing is written.\<close>

lemma put_null_title:
  assumes "table_ok (table session)"
    and "fmlookup (table session) todo_id = Some r"
  shows "status_code (fst (put_todos_id todo_id (empty_body\<lparr>json_title := Null\<rparr>) session)) = 500
       \<and> snd (put_todos_id todo_id (empty_body\<lparr>json_title := Null\<rparr>) session) = table session"
proof -
  have int: "sqlite_integer todo_id"
    using assms by (rule table_ok_lookup)
  have "validate_TodoItemUpdate (empty_body\<lparr>json_title := Null\<rparr>) =
          Inr \<lparr>update_title = None, update_description = None, update_completed = None,
               update_priority = None, update_due_date = None,
               model_fields_set = {''title''}\<rparr>"
    by (simp add: validate_TodoItemUpdate_def empty_body_def supplied_def)
  then show ?thesis
    by (simp add: put_todos_id_def update_todo_found [OF int assms(2)] sqlmodel_update_dump
        flush_update_def of_row_def route_def)
qed

text \<open>An update never changes which ids are stored, and answers with the id it was given.\<close>

lemma update_todo_dom:
  "fmdom' (snd (update_todo todo_id u session)) = fmdom' (table session)"
proof (cases "sqlite_integer todo_id")
  case False
  then show ?thesis
    by (simp add: update_todo_def session_get_def)
next
  case True
  show ?thesis
  proof (cases "fmlookup (table session) todo_id")
    case None
    with True show ?thesis
      by (simp add: update_todo_def session_get_def)
  next
    case (Some r)
    then have "todo_id \<in> fmdom' (table session)"
      by (rule fmdom'I)
    then show ?thesis
      unfolding update_todo_found [OF True Some]
      by (auto simp: flush_update_def split: option.splits)
  qed
qed

lemma update_todo_id:
  assumes "update_todo todo_id u session = (Inr todo, tbl)"
  shows "id' todo = Some todo_id"
  using assms
  by (auto simp: update_todo_def session_get_def Let_def flush_update_def session_refresh_def
      of_row_def split: if_splits option.splits sum.splits)

lemma update_todo_error:
  assumes "update_todo todo_id u session = (Inl e, tbl)"
  shows "status_code (error_response e) \<in> {404, 500}"
  using assms
  by (auto simp: update_todo_def session_get_def Let_def flush_update_def session_refresh_def
      not_found_def split: if_splits option.splits sum.splits)

lemma put_todos_id_dom:
  "fmdom' (snd (put_todos_id todo_id body session)) = fmdom' (table session)"
proof (cases "validate_TodoItemUpdate body")
  case (Inl e)
  then show ?thesis by (simp add: put_todos_id_def)
next
  case (Inr u)
  then show ?thesis
    by (simp add: put_todos_id_split [OF Inr] update_todo_dom)
qed

section \<open>Facts about delete\<close>

lemma delete_todos_id_others:
  "k \<noteq> todo_id \<Longrightarrow>
   fmlookup (snd (delete_todos_id todo_id session)) k = fmlookup (table session) k"
  by (auto simp: delete_todos_id_def delete_todo_def split: sum.splits option.splits)

lemma delete_todos_id_absent:
  "fmlookup (table session) k = None \<Longrightarrow>
   fmlookup (snd (delete_todos_id todo_id session)) k = None"
  by (auto simp: delete_todos_id_def delete_todo_def split: sum.splits option.splits)

section \<open>Facts about sequences of requests\<close>

text \<open>
  An id under which nothing is stored stays so through a request, unless the request is
  a create that is assigned the id.
\<close>

lemma handle_keeps_absent:
  assumes "fmlookup tbl i = None"
    and "handle req (env\<lparr>table := tbl\<rparr>) = (resp, tbl')"
    and "\<not> assigned i resp"
  shows "fmlookup tbl' i = None"
proof (cases req)
  case (POST body)
  with assms(2) have post: "post_todos body (env\<lparr>table := tbl\<rparr>) = (resp, tbl')"
    by simp
  show ?thesis
  proof (cases "status_code resp = 201")
    case True
    from post_todos_created [OF post True] obtain c todo where
      ct: "create_todo c (env\<lparr>table := tbl\<rparr>) = (Inr todo, tbl')"
      and resp: "content resp = Entity todo"
      by blast
    from create_todo_success [OF ct] obtain pk r where
      tbl': "tbl' = fmupd pk r tbl" and "id' todo = Some pk"
      by auto
    with assms(3) resp True have "pk \<noteq> i"
      by (auto simp: assigned_def)
    with tbl' assms(1) show ?thesis
      by simp
  next
    case False
    with post_todos_not_created [OF post] assms(1) show ?thesis
      by simp
  qed
next
  case (GET j)
  with assms(1,2) show ?thesis by auto
next
  case (PUT j body)
  with assms(2) have "tbl' = snd (put_todos_id j body (env\<lparr>table := tbl\<rparr>))"
    by simp
  then have "fmdom' tbl' = fmdom' tbl"
    by (simp add: put_todos_id_dom)
  with assms(1) show ?thesis
    by (metis fmdom'_notI fmdom'_notD)
next
  case (DELETE j)
  with assms(2) have "tbl' = snd (delete_todos_id j (env\<lparr>table := tbl\<rparr>))"
    by simp
  with assms(1) show ?thesis
    by (simp add: delete_todos_id_absent)
qed

lemma serve_keeps_absent:
  assumes "fmlookup tbl i = None"
    and "\<forall>resp \<in> set (fst (serve reqs tbl)). \<not> assigned i resp"
  shows "fmlookup (snd (serve reqs tbl)) i = None"
  using assms
proof (induction reqs arbitrary: tbl)
  case Nil
  then show ?case by simp
next
  case (Cons a reqs)
  obtain req env where a: "a = (req, env)"
    by (cases a)
  obtain resp tbl' where h: "handle req (env\<lparr>table := tbl\<rparr>) = (resp, tbl')"
    by (cases "handle req (env\<lparr>table := tbl\<rparr>)")
  obtain resps tbl'' where s: "serve reqs tbl' = (resps, tbl'')"
    by (cases "serve reqs tbl'")
  from a h s have all: "serve (a # reqs) tbl = (resp # resps, tbl'')"
    by simp
  with Cons.prems(2) have "\<not> assigned i resp"
    and rest: "\<forall>resp \<in> set (fst (serve reqs tbl')). \<not> assigned i resp"
    using s by simp_all
  from handle_keeps_absent [OF Cons.prems(1) h this(1)] have "fmlookup tbl' i = None" .
  from Cons.IH [OF this rest] s all show ?case
    by simp
qed

section \<open>The invariant of the table\<close>

lemma table_ok_empty: "table_ok fmempty"
  by (simp add: table_ok_def)

lemma table_ok_post_todos:
  assumes "table_ok (table session)"
  shows "table_ok (snd (post_todos body session))"
proof (cases "validate_TodoItemCreate body")
  case (Inl e)
  with assms show ?thesis by (simp add: post_todos_def)
next
  case (Inr c)
  obtain res tbl where ct: "create_todo c session = (res, tbl)"
    by (cases "create_todo c session")
  show ?thesis
  proof (cases res)
    case (Inl e)
    with ct create_todo_failure [of c session e tbl] Inr assms show ?thesis
      by (simp add: post_todos_def)
  next
    case (Inr todo)
    with ct create_todo_success [of c session todo tbl] obtain pk r where
      "next_rowid (rowid_probes session) (table session) = Some pk" and "tbl = fmupd pk r (table session)"
      by blast
    with next_rowid_integer [OF assms] assms ct \<open>validate_TodoItemCreate body = Inr c\<close>
    show ?thesis
      by (simp add: post_todos_def table_ok_def)
  qed
qed

lemma table_ok_put_todos_id:
  assumes "table_ok (table session)"
  shows "table_ok (snd (put_todos_id todo_id body session))"
  using assms by (simp add: table_ok_def put_todos_id_dom)

lemma table_ok_delete_todos_id:
  assumes "table_ok (table session)"
  shows "table_ok (snd (delete_todos_id todo_id session))"
  using assms
  by (auto simp: delete_todos_id_def delete_todo_def table_ok_def
      split: sum.splits option.splits)

text \<open>Unfolding every handler and route, for evaluation on concrete requests.\<close>

lemmas handler_defs =
  post_todos_def put_todos_id_def get_todos_id_def delete_todos_id_def
  create_todo_def update_todo_def get_todo_def delete_todo_def
  validate_TodoItemCreate_def validate_TodoItemUpdate_def supplied_def
  model_validate_def model_dump_exclude_unset_def sqlmodel_update_def
  flush_insert_def flush_update_def next_rowid_def session_get_def session_refresh_def
  sqlite_integer_def of_row_def route_def not_found_def
  empty_body_def title_only_def one_todo_def buy_milk_def two_todos_def

section \<open>The claims\<close>

subsection \<open>C1: partial update\<close>

text \<open>
  Claim C1. For every stored entity and every update payload, \<^verbatim>\<open>PUT /todos/{id}\<close>
  overwrites only the fields the payload supplies: whatever the answer, the entity stays
  stored under its id, every other entity is untouched, and every field whose key the
  payload lacks keeps its prior value; when the answer is 200 it carries the stored
  entity and every supplied key holds the supplied value (so \<^verbatim>\<open>{"completed": true}\<close>
  changes only \<^verbatim>\<open>completed\<close>); any other answer leaves the store as it was. An omitted
  field differs from an explicit \<^verbatim>\<open>null\<close>: a \<^verbatim>\<open>null\<close> description clears the stored
  description, an omitted one keeps it.
\<close>

theorem partial_update:
  assumes "fmlookup (table session) todo_id = Some r"
    and "put_todos_id todo_id body session = (resp, tbl)"
  shows "(\<exists>r'. fmlookup tbl todo_id = Some r'
      \<and> (\<forall>pk. pk \<noteq> todo_id \<longrightarrow> fmlookup tbl pk = fmlookup (table session) pk)
      \<and> (json_title body = Absent \<longrightarrow> row_title r' = row_title r)
      \<and> (json_description body = Absent \<longrightarrow> row_description r' = row_description r)
      \<and> (json_completed body = Absent \<longrightarrow> row_completed r' = row_completed r)
      \<and> (json_priority body = Absent \<longrightarrow> row_priority r' = row_priority r)
      \<and> (json_due_date body = Absent \<longrightarrow> row_due_date r' = row_due_date r)
      \<and> (status_code resp = 200 \<longrightarrow>
            content resp = Entity (of_row todo_id r')
          \<and> (json_title body \<noteq> Absent \<longrightarrow> json_title body = Val (row_title r'))
          \<and> (json_description body \<noteq> Absent \<longrightarrow>
                row_description r' = optional_field (json_description body))
          \<and> (json_completed body \<noteq> Absent \<longrightarrow> json_completed body = Val (row_completed r'))
          \<and> (json_priority body \<noteq> Absent \<longrightarrow>
                row_priority r' = optional_field (json_priority body))
          \<and> (json_due_date body \<noteq> Absent \<longrightarrow>
                row_due_date r' = optional_field (json_due_date body)))
      \<and> (status_code resp \<noteq> 200 \<longrightarrow> tbl = table session))
    \<and> (table_ok (table session) \<and> commit_error session = None \<longrightarrow>
         put_todos_id todo_id (empty_body\<lparr>json_description := Null\<rparr>) session =
           (\<lparr>status_code = 200,
             content = Entity (of_row todo_id (r\<lparr>row_description := None\<rparr>))\<rparr>,
            fmupd todo_id (r\<lparr>row_description := None\<rparr>) (table session)))"
proof -
  have "table_ok (table session) \<and> commit_error session = None \<longrightarrow>
         put_todos_id todo_id (empty_body\<lparr>json_description := Null\<rparr>) session =
           (\<lparr>status_code = 200,
             content = Entity (of_row todo_id (r\<lparr>row_description := None\<rparr>))\<rparr>,
            fmupd todo_id (r\<lparr>row_description := None\<rparr>) (table session))"
    using put_null_description [OF _ assms(1)] by blast
  with put_todos_id_frame [OF assms] show ?thesis
    by (rule conjI)
qed

theorem partial_update_witness:
  "fmlookup (table one_todo) 1 = Some buy_milk
   \<and> table_ok (table one_todo) \<and> commit_error one_todo = None
   \<and> put_todos_id 1 (empty_body\<lparr>json_completed := Val True\<rparr>) one_todo =
       (\<lparr>status_code = 200,
         content = Entity (of_row 1 (buy_milk\<lparr>row_completed := True\<rparr>))\<rparr>,
        fmupd 1 (buy_milk\<lparr>row_completed := True\<rparr>) (table one_todo))
   \<and> (\<exists>r'. fmlookup (fmupd 1 (buy_milk\<lparr>row_completed := True\<rparr>) (table one_todo)) 1 = Some r'
          \<and> row_title r' = ''Buy milk'' \<and> row_description r' = Some ''2 litres''
          \<and> row_completed r' \<and> row_priority r' = None \<and> row_due_date r' = None)
   \<and> put_todos_id 1 (empty_body\<lparr>json_description := Null\<rparr>) one_todo =
       (\<lparr>status_code = 200,
         content = Entity (of_row 1 (buy_milk\<lparr>row_description := None\<rparr>))\<rparr>,
        fmupd 1 (buy_milk\<lparr>row_description := None\<rparr>) (table one_todo))"
proof -
  have h1: "fmlookup (table one_todo) 1 = Some buy_milk"
    by (simp add: one_todo_def)
  have h2: "put_todos_id 1 (empty_body\<lparr>json_completed := Val True\<rparr>) one_todo =
       (\<lparr>status_code = 200,
         content = Entity (of_row 1 (buy_milk\<lparr>row_completed := True\<rparr>))\<rparr>,
        fmupd 1 (buy_milk\<lparr>row_completed := True\<rparr>) (table one_todo))"
    by (simp add: handler_defs)
  have h3: "table_ok (table one_todo) \<and> commit_error one_todo = None"
    by (simp add: table_ok_def one_todo_def sqlite_integer_def)
  show ?thesis
    using partial_update [OF h1 h2] h1 h2 h3
    by (auto simp: one_todo_def buy_milk_def)
qed

subsection \<open>C2: creation with only a title\<close>

text \<open>
  Claim C2. For every create request whose payload contains only a title,
  \<^verbatim>\<open>POST /todos\<close> answers 201 with the full created entity: its title is the supplied
  title, \<^verbatim>\<open>completed\<close> is false, \<^verbatim>\<open>description\<close>, \<^verbatim>\<open>priority\<close> and \<^verbatim>\<open>due_date\<close> are
  null, and its id is the one the store assigns; the entity is persisted under that id.
  As the claim's source sentence says, a store failure is answered with 500 instead: the
  statement is for a request whose commit the engine does not refuse and for which the
  table finds a rowid to give.
\<close>

theorem create_title_only:
  assumes "commit_error session = None" and "next_rowid (rowid_probes session) (table session) = Some pk"
  shows "post_todos (title_only t) session =
           (\<lparr>status_code = 201,
             content = Entity \<lparr>id' = Some pk, title = Some t, description = None,
                               completed = Some False, priority = None, due_date = None\<rparr>\<rparr>,
            fmupd pk \<lparr>row_title = t, row_description = None, row_completed = False,
                      row_priority = None, row_due_date = None\<rparr> (table session))"
  using assms
  by (simp add: post_todos_def title_only_def empty_body_def validate_TodoItemCreate_def
      create_todo_def model_validate_def flush_insert_def session_refresh_def of_row_def
      route_def)

theorem create_title_only_witness:
  "commit_error one_todo = None \<and> next_rowid (rowid_probes one_todo) (table one_todo) = Some 2
   \<and> post_todos (title_only ''Walk the dog'') one_todo =
       (\<lparr>status_code = 201,
         content = Entity \<lparr>id' = Some 2, title = Some ''Walk the dog'', description = None,
                           completed = Some False, priority = None, due_date = None\<rparr>\<rparr>,
        fmupd 2 \<lparr>row_title = ''Walk the dog'', row_description = None, row_completed = False,
                 row_priority = None, row_due_date = None\<rparr> (table one_todo))"
proof -
  have h1: "commit_error one_todo = None"
    by (simp add: one_todo_def)
  have h2: "next_rowid (rowid_probes one_todo) (table one_todo) = Some 2"
    by (simp add: one_todo_def next_rowid_def)
  show ?thesis
    using create_title_only [OF h1 h2, of "''Walk the dog''"] h1 h2 by simp
qed

subsection \<open>C3: create, then get\<close>

text \<open>
  Claim C3. For every entity successfully created by \<^verbatim>\<open>POST /todos\<close> (answer 201), a
  following \<^verbatim>\<open>GET /todos/{id}\<close> with the id of the answer returns the very entity the
  create call returned.
\<close>

theorem create_get_roundtrip:
  assumes "table_ok (table session)"
    and "post_todos body session = (resp, tbl)"
    and "status_code resp = 201"
  shows "\<exists>todo pk. content resp = Entity todo \<and> id' todo = Some pk
           \<and> get_todos_id pk \<lparr>table = tbl, commit_error = e, rowid_probes = ps\<rparr>
               = \<lparr>status_code = 200, content = Entity todo\<rparr>"
proof -
  from post_todos_created [OF assms(2,3)] obtain c todo where
    ct: "create_todo c session = (Inr todo, tbl)" and resp: "content resp = Entity todo"
    by blast
  from create_todo_success [OF ct] obtain pk where
    pk: "next_rowid (rowid_probes session) (table session) = Some pk"
    and tbl: "tbl = fmupd pk \<lparr>row_title = create_title c,
                               row_description = create_description c,
                               row_completed = False,
                               row_priority = create_priority c,
                               row_due_date = create_due_date c\<rparr> (table session)"
    and todo: "todo = \<lparr>id' = Some pk, title = Some (create_title c),
                       description = create_description c, completed = Some False,
                       priority = create_priority c, due_date = create_due_date c\<rparr>"
    by blast
  have "sqlite_integer pk"
    using assms(1) pk by (rule next_rowid_integer)
  then have "get_todos_id pk \<lparr>table = tbl, commit_error = e, rowid_probes = ps\<rparr>
               = \<lparr>status_code = 200, content = Entity todo\<rparr>"
    by (simp add: get_todos_id_def get_todo_def session_get_def route_def tbl todo of_row_def)
  with resp todo show ?thesis
    by simp
qed

theorem create_get_roundtrip_witness:
  "table_ok (table one_todo)
   \<and> status_code (fst (post_todos (title_only ''Walk the dog'') one_todo)) = 201
   \<and> (\<exists>todo pk. content (fst (post_todos (title_only ''Walk the dog'') one_todo)) = Entity todo
         \<and> id' todo = Some pk
         \<and> get_todos_id pk
             \<lparr>table = snd (post_todos (title_only ''Walk the dog'') one_todo),
              commit_error = None, rowid_probes = []\<rparr>
           = \<lparr>status_code = 200, content = Entity todo\<rparr>)"
proof -
  have h1: "table_ok (table one_todo)"
    by (simp add: table_ok_def one_todo_def sqlite_integer_def)
  have h2: "post_todos (title_only ''Walk the dog'') one_todo =
              (fst (post_todos (title_only ''Walk the dog'') one_todo),
               snd (post_todos (title_only ''Walk the dog'') one_todo))"
    by simp
  have h3: "status_code (fst (post_todos (title_only ''Walk the dog'') one_todo)) = 201"
    by (simp add: handler_defs)
  show ?thesis
    using create_get_roundtrip [OF h1 h2 h3, where e = None and ps = "[]"] h1 h3 by blast
qed

subsection \<open>C4: delete\<close>

text \<open>
  Claim C4, as amended. For every id present in the store, \<^verbatim>\<open>DELETE /todos/{id}\<close>
  removes that entity and answers 204 with no content, and every subsequent
  \<^verbatim>\<open>GET /todos/{id}\<close> for that id signals not-found (404) for as long as no later
  \<^verbatim>\<open>POST /todos\<close> has been assigned that id: after any sequence of requests none of
  which is answered 201 with that id, whatever their environments. As the claim's source
  sentence says, a store failure is answered with 500 instead: the statement is for a
  delete whose commit the engine does not refuse.
\<close>

theorem delete_then_get:
  assumes "table_ok (table session)"
    and "fmlookup (table session) todo_id = Some r"
    and "commit_error session = None"
  shows "delete_todos_id todo_id session
           = (\<lparr>status_code = 204, content = NoContent\<rparr>, fmdrop todo_id (table session))
       \<and> fmlookup (fmdrop todo_id (table session)) todo_id = None
       \<and> ((\<forall>resp \<in> set (fst (serve reqs (fmdrop todo_id (table session)))).
               \<not> assigned todo_id resp) \<longrightarrow>
            get_todo todo_id
              \<lparr>table = snd (serve reqs (fmdrop todo_id (table session))),
               commit_error = e, rowid_probes = ps\<rparr>
              = Inl (HTTPException 404 ''To-Do item not found'')
          \<and> status_code (get_todos_id todo_id
              \<lparr>table = snd (serve reqs (fmdrop todo_id (table session))),
               commit_error = e, rowid_probes = ps\<rparr>) = 404)"
proof (intro conjI impI)
  have int: "sqlite_integer todo_id"
    using assms(1,2) by (rule table_ok_lookup)
  show "delete_todos_id todo_id session
          = (\<lparr>status_code = 204, content = NoContent\<rparr>, fmdrop todo_id (table session))"
    using session_get_found [OF int assms(2)] assms(3)
    by (simp add: delete_todos_id_def delete_todo_def route_def)
  show gone: "fmlookup (fmdrop todo_id (table session)) todo_id = None"
    by simp
  assume "\<forall>resp \<in> set (fst (serve reqs (fmdrop todo_id (table session)))).
            \<not> assigned todo_id resp"
  with gone have absent:
    "fmlookup (snd (serve reqs (fmdrop todo_id (table session)))) todo_id = None"
    by (rule serve_keeps_absent)
  then show "get_todo todo_id
              \<lparr>table = snd (serve reqs (fmdrop todo_id (table session))),
               commit_error = e, rowid_probes = ps\<rparr>
              = Inl (HTTPException 404 ''To-Do item not found'')"
    using int by (simp add: get_todo_def session_get_def not_found_def)
  then show "status_code (get_todos_id todo_id
              \<lparr>table = snd (serve reqs (fmdrop todo_id (table session))),
               commit_error = e, rowid_probes = ps\<rparr>) = 404"
    by (simp add: get_todos_id_def route_def)
qed

text \<open>
  The witness: in the store with the entities 1 and 2, delete 1; then a create (it is
  assigned id 3) and an update of id 1 (not found); id 1 is still not found.
\<close>

theorem delete_then_get_witness:
  "table_ok (table two_todos) \<and> fmlookup (table two_todos) 1 = Some buy_milk
   \<and> commit_error two_todos = None
   \<and> delete_todos_id 1 two_todos
       = (\<lparr>status_code = 204, content = NoContent\<rparr>, fmdrop 1 (table two_todos))
   \<and> map status_code (fst (serve [(POST (title_only ''Call home''), one_todo),
                                   (PUT 1 empty_body, one_todo)]
                             (fmdrop 1 (table two_todos)))) = [201, 404]
   \<and> map (assigned 1) (fst (serve [(POST (title_only ''Call home''), one_todo),
                                   (PUT 1 empty_body, one_todo)]
                             (fmdrop 1 (table two_todos)))) = [False, False]
   \<and> status_code (get_todos_id 1
        \<lparr>table = snd (serve [(POST (title_only ''Call home''), one_todo),
                              (PUT 1 empty_body, one_todo)]
                        (fmdrop 1 (table two_todos))),
         commit_error = None, rowid_probes = []\<rparr>) = 404"
proof -
  have h1: "table_ok (table two_todos)"
    by (simp add: table_ok_def two_todos_def sqlite_integer_def)
  have h2: "fmlookup (table two_todos) 1 = Some buy_milk"
    by (simp add: two_todos_def)
  have h3: "commit_error two_todos = None"
    by (simp add: two_todos_def)
  have h4: "\<forall>resp \<in> set (fst (serve [(POST (title_only ''Call home''), one_todo),
                                    (PUT 1 empty_body, one_todo)]
                              (fmdrop 1 (table two_todos)))). \<not> assigned 1 resp"
    unfolding two_todos_drop by (simp add: handler_defs assigned_def)
  have h5: "map status_code (fst (serve [(POST (title_only ''Call home''), one_todo),
                                   (PUT 1 empty_body, one_todo)]
                             (fmdrop 1 (table two_todos)))) = [201, 404]"
    unfolding two_todos_drop by (simp add: handler_defs)
  have h6: "map (assigned 1) (fst (serve [(POST (title_only ''Call home''), one_todo),
                                   (PUT 1 empty_body, one_todo)]
                             (fmdrop 1 (table two_todos)))) = [False, False]"
    unfolding two_todos_drop by (simp add: handler_defs assigned_def)
  show ?thesis
    using delete_then_get [OF h1 h2 h3,
        where reqs = "[(POST (title_only ''Call home''), one_todo), (PUT 1 empty_body, one_todo)]"
        and e = None and ps = "[]"] h1 h2 h3 h4 h5 h6
    by blast
qed

text \<open>
  The claim as stated fails: ids are reused. In the store with the single entity 1:
  delete 1 (204), create again (the new entity is assigned id 1), and the subsequent
  \<^verbatim>\<open>GET /todos/1\<close> answers 200.
\<close>

theorem delete_then_get_counterexample:
  "fst (delete_todos_id 1
      \<lparr>table = fmupd 1 \<lparr>row_title = ''Buy milk'', row_description = None,
                         row_completed = False, row_priority = None,
                         row_due_date = None\<rparr> fmempty,
       commit_error = None, rowid_probes = []\<rparr>) = \<lparr>status_code = 204, content = NoContent\<rparr>
   \<and> get_todos_id 1
       \<lparr>table = snd (post_todos (title_only ''second'')
          \<lparr>table = snd (delete_todos_id 1
             \<lparr>table = fmupd 1 \<lparr>row_title = ''Buy milk'', row_description = None,
                                row_completed = False, row_priority = None,
                                row_due_date = None\<rparr> fmempty,
              commit_error = None, rowid_probes = []\<rparr>),
           commit_error = None, rowid_probes = []\<rparr>),
        commit_error = None, rowid_probes = []\<rparr>
     = \<lparr>status_code = 200,
        content = Entity \<lparr>id' = Some 1, title = Some ''second'', description = None,
                          completed = Some False, priority = None, due_date = None\<rparr>\<rparr>"
  by (simp add: post_todos_def title_only_def empty_body_def validate_TodoItemCreate_def
      create_todo_def model_validate_def flush_insert_def next_rowid_def
      session_refresh_def of_row_def route_def delete_todos_id_def delete_todo_def
      get_todos_id_def get_todo_def session_get_def sqlite_integer_def)

subsection \<open>C5: absent ids\<close>

text \<open>
  Claim C5 says that for every id under which no entity is stored, \<^verbatim>\<open>GET\<close>, \<^verbatim>\<open>PUT\<close> and
  \<^verbatim>\<open>DELETE /todos/{id}\<close> each signal not-found with status 404. The handlers do so for
  every id in the range of SQLite's 64-bit integers (lemma \<open>absent_id_in_range\<close>). The
  path parameter is an unbounded \<^verbatim>\<open>int\<close>, though, and for an id outside that range
  \<^verbatim>\<open>session.get\<close> raises \<^verbatim>\<open>OverflowError\<close> before the handler's test for \<^verbatim>\<open>None\<close>, outside
  any \<^verbatim>\<open>try\<close>. Here no entity is stored under \<open>2^63\<close>, and the three routes answer 500.
\<close>

theorem absent_id_overflow:
  "fmlookup (table \<lparr>table = fmempty, commit_error = None, rowid_probes = []\<rparr>) (2 ^ 63) = None
   \<and> get_todo (2 ^ 63) \<lparr>table = fmempty, commit_error = None, rowid_probes = []\<rparr>
       = Inl (Unhandled ''OverflowError: Python int too large to convert to SQLite INTEGER'')
   \<and> status_code (get_todos_id (2 ^ 63)
        \<lparr>table = fmempty, commit_error = None, rowid_probes = []\<rparr>) = 500
   \<and> status_code (fst (put_todos_id (2 ^ 63) empty_body
        \<lparr>table = fmempty, commit_error = None, rowid_probes = []\<rparr>)) = 500
   \<and> status_code (fst (delete_todos_id (2 ^ 63)
        \<lparr>table = fmempty, commit_error = None, rowid_probes = []\<rparr>)) = 500"
  by (simp add: get_todo_def get_todos_id_def put_todos_id_def update_todo_def
      delete_todos_id_def delete_todo_def validate_TodoItemUpdate_def empty_body_def
      supplied_def session_get_def sqlite_integer_def route_def)

subsection \<open>C6: translation without a credential\<close>

text \<open>
  Claim C6, as amended. When the credential of the external translation service is not
  configured (the environment variable is unset or empty), \<^verbatim>\<open>POST /translate\<close> signals
  service-unavailable with status 503 for every schema-valid payload (\<^verbatim>\<open>text\<close> and
  \<^verbatim>\<open>target_language\<close> both text); a payload that fails schema validation is answered
  422 before the handler runs. In both cases no call to the external service is
  attempted.
\<close>

theorem translate_unavailable:
  assumes "google_api_key = None \<or> google_api_key = Some []"
  shows "translate_text (gemini_model google_api_key genai) request =
           (Inl (HTTPException 503
              ''Translation service not available. API key might be missing or invalid.''), [])
       \<and> (validate_TranslationRequest body = Inr request \<longrightarrow>
            post_translate (gemini_model google_api_key genai) body =
              (\<lparr>status_code = 503,
                content = Detail
                  ''Translation service not available. API key might be missing or invalid.''\<rparr>,
               []))
       \<and> (validate_TranslationRequest body = Inl e \<longrightarrow>
            post_translate (gemini_model google_api_key genai) body =
              (\<lparr>status_code = 422, content = ValidationDetail\<rparr>, []))
       \<and> snd (post_translate (gemini_model google_api_key genai) body) = []"
proof -
  have none: "gemini_model google_api_key genai = None"
    using assms by (auto simp: gemini_model_def)
  have err: "validate_TranslationRequest body = Inl e \<Longrightarrow> e = RequestValidationError"
    by (auto simp: validate_TranslationRequest_def split: json_field.splits)
  show ?thesis
    unfolding none using err
    by (cases "validate_TranslationRequest body")
      (auto simp: translate_text_def post_translate_def route_def)
qed

theorem translate_unavailable_witness:
  "((None :: string option) = None \<or> (None :: string option) = Some [])
   \<and> validate_TranslationRequest
        \<lparr>json_text = Val ''Buy milk'', json_target_language = Val ''French''\<rparr>
       = Inr \<lparr>text_in = ''Buy milk'', target_language = ''French''\<rparr>
   \<and> post_translate (gemini_model None (\<lambda>k. Inr (\<lambda>prompt. Inr prompt)))
        \<lparr>json_text = Val ''Buy milk'', json_target_language = Val ''French''\<rparr>
       = (\<lparr>status_code = 503,
           content = Detail
             ''Translation service not available. API key might be missing or invalid.''\<rparr>,
          [])"
proof -
  have h1: "(None :: string option) = None \<or> (None :: string option) = Some []"
    by simp
  have h2: "validate_TranslationRequest
        \<lparr>json_text = Val ''Buy milk'', json_target_language = Val ''French''\<rparr>
       = Inr \<lparr>text_in = ''Buy milk'', target_language = ''French''\<rparr>"
    by (simp add: validate_TranslationRequest_def)
  show ?thesis
    using translate_unavailable [OF h1,
        where genai = "\<lambda>k. Inr (\<lambda>prompt. Inr prompt)"
        and request = "\<lparr>text_in = ''Buy milk'', target_language = ''French''\<rparr>"
        and body = "\<lparr>json_text = Val ''Buy milk'', json_target_language = Val ''French''\<rparr>"]
      h1 h2
    by blast
qed

text \<open>
  The claim as stated fails for a payload that does not validate: without a credential,
  the body \<^verbatim>\<open>{}\<close> is answered 422, not 503.
\<close>

theorem translate_unavailable_counterexample:
  "post_translate (gemini_model None (\<lambda>k. Inr (\<lambda>prompt. Inr prompt)))
     \<lparr>json_text = Absent, json_target_language = Absent\<rparr>
   = (\<lparr>status_code = 422, content = ValidationDetail\<rparr>, [])"
  by (simp add: post_translate_def validate_TranslationRequest_def gemini_model_def)

subsection \<open>C7: title validation\<close>

text \<open>
  Claim C7, as amended. A create request whose payload has no title is rejected at the
  schema-validation boundary: the answer is 422, the handler is not reached and the store
  is unchanged. Every entity that \<^verbatim>\<open>POST /todos\<close> creates carries, in the answer and in
  the store, exactly the title text the payload supplied; the backend puts no lower bound
  on its length. The add form of the front end shows a warning and sends no request when
  the title field is empty.
\<close>

theorem title_validation:
  "(json_title body = Absent \<longrightarrow>
      validate_TodoItemCreate body = Inl RequestValidationError
      \<and> post_todos body session =
          (\<lparr>status_code = 422, content = ValidationDetail\<rparr>, table session))
   \<and> (status_code (fst (post_todos body session)) = 201 \<longrightarrow>
        (\<exists>t todo pk. json_title body = Val t
           \<and> content (fst (post_todos body session)) = Entity todo
           \<and> title todo = Some t \<and> id' todo = Some pk
           \<and> map_option row_title (fmlookup (snd (post_todos body session)) pk) = Some t))
   \<and> add_todo_form [] new_description new_priority new_due_date session
       = (None, table session)"
proof (intro conjI impI)
  assume "json_title body = Absent"
  then show "validate_TodoItemCreate body = Inl RequestValidationError"
    by (simp add: validate_TodoItemCreate_def)
  then show "post_todos body session =
      (\<lparr>status_code = 422, content = ValidationDetail\<rparr>, table session)"
    by (simp add: post_todos_def)
next
  assume created: "status_code (fst (post_todos body session)) = 201"
  have "post_todos body session = (fst (post_todos body session), snd (post_todos body session))"
    by simp
  from post_todos_created [OF this created] obtain c todo where
    v: "validate_TodoItemCreate body = Inr c"
    and ct: "create_todo c session = (Inr todo, snd (post_todos body session))"
    and resp: "content (fst (post_todos body session)) = Entity todo"
    by blast
  from create_todo_success [OF ct] obtain pk where
    "snd (post_todos body session) =
       fmupd pk \<lparr>row_title = create_title c, row_description = create_description c,
                 row_completed = False, row_priority = create_priority c,
                 row_due_date = create_due_date c\<rparr> (table session)"
    and "todo = \<lparr>id' = Some pk, title = Some (create_title c),
                 description = create_description c, completed = Some False,
                 priority = create_priority c, due_date = create_due_date c\<rparr>"
    by blast
  with resp validate_TodoItemCreate_ok [OF v]
  show "\<exists>t todo pk. json_title body = Val t
           \<and> content (fst (post_todos body session)) = Entity todo
           \<and> title todo = Some t \<and> id' todo = Some pk
           \<and> map_option row_title (fmlookup (snd (post_todos body session)) pk) = Some t"
    by simp
next
  show "add_todo_form [] new_description new_priority new_due_date session
       = (None, table session)"
    by (simp add: add_todo_form_def)
qed

theorem title_validation_witness:
  "json_title empty_body = Absent
   \<and> post_todos empty_body one_todo =
       (\<lparr>status_code = 422, content = ValidationDetail\<rparr>, table one_todo)
   \<and> status_code (fst (post_todos (title_only ''Walk the dog'') one_todo)) = 201
   \<and> (\<exists>todo pk. content (fst (post_todos (title_only ''Walk the dog'') one_todo)) = Entity todo
         \<and> title todo = Some ''Walk the dog'' \<and> id' todo = Some pk
         \<and> map_option row_title
             (fmlookup (snd (post_todos (title_only ''Walk the dog'') one_todo)) pk)
           = Some ''Walk the dog'')"
proof -
  have h1: "json_title empty_body = Absent"
    by (simp add: empty_body_def)
  have h2: "status_code (fst (post_todos (title_only ''Walk the dog'') one_todo)) = 201"
    by (simp add: handler_defs)
  have h3: "json_title (title_only ''Walk the dog'') = Val ''Walk the dog''"
    by (simp add: title_only_def empty_body_def)
  show ?thesis
    using title_validation [of empty_body one_todo]
      title_validation [of "title_only ''Walk the dog''" one_todo] h1 h2 h3
    by auto
qed

text \<open>
  The claim as stated fails for the empty title: the backend creates the entity.
\<close>

theorem empty_title_counterexample:
  "post_todos (title_only []) \<lparr>table = fmempty, commit_error = None, rowid_probes = []\<rparr> =
     (\<lparr>status_code = 201,
       content = Entity \<lparr>id' = Some 1, title = Some [], description = None,
                         completed = Some False, priority = None, due_date = None\<rparr>\<rparr>,
      fmupd 1 \<lparr>row_title = [], row_description = None, row_completed = False,
               row_priority = None, row_due_date = None\<rparr> fmempty)"
  by (simp add: post_todos_def title_only_def empty_body_def validate_TodoItemCreate_def
      create_todo_def model_validate_def flush_insert_def next_rowid_def
      session_refresh_def of_row_def route_def)

subsection \<open>C8: length of the priority\<close>

text \<open>
  Claim C8 says that no create or update leaves a priority longer than 50 characters in
  the store. The create path keeps the bound that \<^verbatim>\<open>TodoItem.priority\<close> declares
  (lemmas \<open>create_priority_bounded\<close> and \<open>create_long_priority_refused\<close>); the update path
  does not: \<^verbatim>\<open>TodoItemUpdate.priority\<close> has no bound, \<^verbatim>\<open>sqlmodel_update\<close> does not
  validate and the table does not check. Here a \<^verbatim>\<open>PUT\<close> with a priority of 51 characters
  on the stored entity 1 is answered 200 and the 51 characters are stored.
\<close>

theorem update_priority_unbounded:
  "status_code (fst (put_todos_id 1
       (empty_body\<lparr>json_priority := Val (replicate 51 CHR ''x'')\<rparr>)
       \<lparr>table = fmupd 1 \<lparr>row_title = ''Buy milk'', row_description = None,
                          row_completed = False, row_priority = None,
                          row_due_date = None\<rparr> fmempty,
        commit_error = None, rowid_probes = []\<rparr>)) = 200
   \<and> map_option row_priority (fmlookup (snd (put_todos_id 1
       (empty_body\<lparr>json_priority := Val (replicate 51 CHR ''x'')\<rparr>)
       \<lparr>table = fmupd 1 \<lparr>row_title = ''Buy milk'', row_description = None,
                          row_completed = False, row_priority = None,
                          row_due_date = None\<rparr> fmempty,
        commit_error = None, rowid_probes = []\<rparr>)) 1) = Some (Some (replicate 51 CHR ''x''))
   \<and> 50 < length (replicate 51 CHR ''x'')"
  by (simp add: put_todos_id_def validate_TodoItemUpdate_def empty_body_def supplied_def
      update_todo_def session_get_def sqlite_integer_def of_row_def
      model_dump_exclude_unset_def sqlmodel_update_def flush_update_def
      session_refresh_def route_def)

subsection \<open>C9: assignment of ids\<close>

text \<open>
  Claim C9, as amended. Within a running store every id is assigned by the store at
  creation and differs from the id of every entity in the store at that moment; the
  creation changes no other entry. The id is stable for the entity's lifetime: an update
  never changes which ids are stored and answers with the id it was given, and a delete
  touches no entry but its own. After the entity holding an id is deleted, the id can be
  assigned to a later-created entity.
\<close>

theorem id_assignment:
  "(post_todos body session = (resp, tbl) \<and> status_code resp = 201 \<longrightarrow>
      (\<exists>todo pk. content resp = Entity todo \<and> id' todo = Some pk
         \<and> pk \<notin> fmdom' (table session)
         \<and> fmdom' tbl = insert pk (fmdom' (table session))
         \<and> (\<forall>k. k \<noteq> pk \<longrightarrow> fmlookup tbl k = fmlookup (table session) k)))
   \<and> fmdom' (snd (put_todos_id todo_id body' session)) = fmdom' (table session)
   \<and> (status_code (fst (put_todos_id todo_id body' session)) = 200 \<longrightarrow>
        (\<exists>todo. content (fst (put_todos_id todo_id body' session)) = Entity todo
           \<and> id' todo = Some todo_id))
   \<and> (\<forall>k. k \<noteq> todo_id \<longrightarrow>
         fmlookup (snd (delete_todos_id todo_id session)) k = fmlookup (table session) k)"
proof (intro conjI impI allI)
  assume a: "post_todos body session = (resp, tbl) \<and> status_code resp = 201"
  then have "post_todos body session = (resp, tbl)" and "status_code resp = 201"
    by simp_all
  from post_todos_created [OF this] obtain c todo where
    ct: "create_todo c session = (Inr todo, tbl)" and resp: "content resp = Entity todo"
    by blast
  from create_todo_success [OF ct] obtain pk where
    pk: "next_rowid (rowid_probes session) (table session) = Some pk"
    and tbl: "tbl = fmupd pk \<lparr>row_title = create_title c,
                               row_description = create_description c,
                               row_completed = False,
                               row_priority = create_priority c,
                               row_due_date = create_due_date c\<rparr> (table session)"
    and todo: "id' todo = Some pk"
    by auto
  from pk have "pk \<notin> fmdom' (table session)"
    by (rule next_rowid_fresh)
  with resp tbl todo
  show "\<exists>todo pk. content resp = Entity todo \<and> id' todo = Some pk
         \<and> pk \<notin> fmdom' (table session)
         \<and> fmdom' tbl = insert pk (fmdom' (table session))
         \<and> (\<forall>k. k \<noteq> pk \<longrightarrow> fmlookup tbl k = fmlookup (table session) k)"
    by auto
next
  show "fmdom' (snd (put_todos_id todo_id body' session)) = fmdom' (table session)"
    by (rule put_todos_id_dom)
next
  assume ok: "status_code (fst (put_todos_id todo_id body' session)) = 200"
  show "\<exists>todo. content (fst (put_todos_id todo_id body' session)) = Entity todo
           \<and> id' todo = Some todo_id"
  proof (cases "validate_TodoItemUpdate body'")
    case (Inl e)
    with ok validate_TodoItemUpdate_error [OF Inl] show ?thesis
      by (simp add: put_todos_id_def)
  next
    case (Inr u)
    obtain res tbl where ut: "update_todo todo_id u session = (res, tbl)"
      by (cases "update_todo todo_id u session")
    show ?thesis
    proof (cases res)
      case (Inl e)
      with ut ok update_todo_error [of todo_id u session e tbl] show ?thesis
        by (auto simp: put_todos_id_split [OF Inr] route_def)
    next
      case (Inr todo)
      with ut update_todo_id [of todo_id u session todo tbl] show ?thesis
        by (simp add: put_todos_id_split [OF \<open>validate_TodoItemUpdate body' = Inr u\<close>] route_def)
    qed
  qed
next
  fix k
  assume "k \<noteq> todo_id"
  then show "fmlookup (snd (delete_todos_id todo_id session)) k = fmlookup (table session) k"
    by (rule delete_todos_id_others)
qed

theorem id_assignment_witness:
  "status_code (fst (post_todos (title_only ''Walk the dog'') one_todo)) = 201
   \<and> fmdom' (table one_todo) = {1}
   \<and> (\<exists>todo. content (fst (post_todos (title_only ''Walk the dog'') one_todo)) = Entity todo
         \<and> id' todo = Some 2)
   \<and> fmdom' (snd (post_todos (title_only ''Walk the dog'') one_todo)) = {1, 2}
   \<and> status_code (fst (put_todos_id 1 (empty_body\<lparr>json_completed := Val True\<rparr>) one_todo)) = 200
   \<and> (\<exists>todo. content (fst (put_todos_id 1 (empty_body\<lparr>json_completed := Val True\<rparr>) one_todo))
                = Entity todo \<and> id' todo = Some 1)
   \<and> fmlookup (snd (delete_todos_id 2 two_todos)) 1 = fmlookup (table two_todos) 1"
proof -
  have h1: "status_code (fst (post_todos (title_only ''Walk the dog'') one_todo)) = 201"
    by (simp add: handler_defs)
  have h2: "status_code (fst (put_todos_id 1 (empty_body\<lparr>json_completed := Val True\<rparr>) one_todo))
              = 200"
    by (simp add: handler_defs)
  have h3: "fmdom' (table one_todo) = {1}"
    by (simp add: one_todo_def)
  have h4: "content (fst (post_todos (title_only ''Walk the dog'') one_todo)) =
      Entity \<lparr>id' = Some 2, title = Some ''Walk the dog'', description = None,
              completed = Some False, priority = None, due_date = None\<rparr>"
    by (simp add: handler_defs)
  have h5: "(1::int) \<noteq> 2"
    by simp
  show ?thesis
    using id_assignment [of "title_only ''Walk the dog''" one_todo
        "fst (post_todos (title_only ''Walk the dog'') one_todo)"
        "snd (post_todos (title_only ''Walk the dog'') one_todo)"
        1 "empty_body\<lparr>json_completed := Val True\<rparr>"] 
      id_assignment [where session = two_todos and todo_id = 2] h1 h2 h3 h4 h5
    by auto
qed

text \<open>
  The claim as stated fails: the table has no \<^verbatim>\<open>AUTOINCREMENT\<close>, so after the entity
  with the largest id is deleted, that id is given to the next entity created. In the
  empty store: create (id 1), delete 1, create again (id 1 once more).
\<close>

theorem id_reuse_counterexample:
  "fst (post_todos (title_only ''first'') \<lparr>table = fmempty, commit_error = None, rowid_probes = []\<rparr>) =
     \<lparr>status_code = 201,
      content = Entity \<lparr>id' = Some 1, title = Some ''first'', description = None,
                        completed = Some False, priority = None, due_date = None\<rparr>\<rparr>
   \<and> fst (delete_todos_id 1
        \<lparr>table = snd (post_todos (title_only ''first'')
                        \<lparr>table = fmempty, commit_error = None, rowid_probes = []\<rparr>),
         commit_error = None, rowid_probes = []\<rparr>) = \<lparr>status_code = 204, content = NoContent\<rparr>
   \<and> fst (post_todos (title_only ''second'')
        \<lparr>table = snd (delete_todos_id 1
           \<lparr>table = snd (post_todos (title_only ''first'')
                           \<lparr>table = fmempty, commit_error = None, rowid_probes = []\<rparr>),
            commit_error = None, rowid_probes = []\<rparr>),
         commit_error = None, rowid_probes = []\<rparr>) =
     \<lparr>status_code = 201,
      content = Entity \<lparr>id' = Some 1, title = Some ''second'', description = None,
                        completed = Some False, priority = None, due_date = None\<rparr>\<rparr>"
  by (simp add: post_todos_def title_only_def empty_body_def validate_TodoItemCreate_def
      create_todo_def model_validate_def flush_insert_def next_rowid_def
      session_refresh_def of_row_def route_def delete_todos_id_def delete_todo_def
      session_get_def sqlite_integer_def)

subsection \<open>C10: the empty update\<close>

text \<open>
  Claim C10. For every id present in the store, \<^verbatim>\<open>PUT /todos/{id}\<close> with the payload
  \<^verbatim>\<open>{}\<close> succeeds with status 200 and returns the entity with every field unchanged; the
  store is unchanged too. The statement is for a request whose commit the engine does
  not refuse.
\<close>

theorem empty_update_noop:
  assumes "table_ok (table session)"
    and "fmlookup (table session) todo_id = Some r"
    and "commit_error session = None"
  shows "put_todos_id todo_id empty_body session =
           (\<lparr>status_code = 200, content = Entity (of_row todo_id r)\<rparr>, table session)"
proof -
  have int: "sqlite_integer todo_id"
    using assms(1,2) by (rule table_ok_lookup)
  show ?thesis
    using validate_empty_body assms(2,3) fmupd_same [OF assms(2)]
    by (simp add: put_todos_id_def update_todo_found [OF int assms(2)] sqlmodel_update_dump
        flush_update_def of_row_def route_def row_eta)
qed

theorem empty_update_noop_witness:
  "table_ok (table one_todo) \<and> fmlookup (table one_todo) 1 = Some buy_milk
   \<and> commit_error one_todo = None
   \<and> put_todos_id 1 empty_body one_todo =
       (\<lparr>status_code = 200, content = Entity (of_row 1 buy_milk)\<rparr>, table one_todo)"
proof -
  have h1: "table_ok (table one_todo)"
    by (simp add: table_ok_def one_todo_def sqlite_integer_def)
  have h2: "fmlookup (table one_todo) 1 = Some buy_milk"
    by (simp add: one_todo_def)
  have h3: "commit_error one_todo = None"
    by (simp add: one_todo_def)
  show ?thesis
    using empty_update_noop [OF h1 h2 h3] h1 h2 h3 by simp
qed

end
